theory Spec2Isabelle
  imports Main
begin

section \<open>Exceptions and the message table\<close>

text \<open>
  \<^verbatim>\<open>exception.py\<close> and \<^verbatim>\<open>properties.py\<close>. A \<^verbatim>\<open>MetagraphException\<close> is built from
  an argument name and a message read from the dictionary \<^verbatim>\<open>resources\<close>. The
  dictionary is indexed with \<^verbatim>\<open>resources[key]\<close>, so a key it does not hold makes
  Python raise \<^verbatim>\<open>KeyError\<close> before the \<^verbatim>\<open>MetagraphException\<close> is constructed.
  \<^verbatim>\<open>TypeError\<close> is what Python raises when a \<^verbatim>\<open>Triple\<close> is indexed or an \<^verbatim>\<open>Edge\<close> is
  iterated, \<^verbatim>\<open>IndexError\<close> when a list is read out of range, and \<^verbatim>\<open>ValueError\<close> when
  \<^verbatim>\<open>list.index\<close> does not find its argument or numpy refuses to build a matrix.
\<close>

datatype error =
    MetagraphException string string
  | KeyError string
  | TypeError string
  | IndexError
  | ValueError string

definition resources :: "(string \<times> string) list" where
  "resources =
    [(''value_null'', ''value cannot be null or empty''),
     (''file_empty'', ''file is empty''),
     (''folder_empty'', ''folder is empty''),
     (''format_invalid'', ''provided format is invalid''),
     (''not_in_generating_set'', ''provided values are not in generating set''),
     (''value_not_found'', ''value not found''),
     (''no_overlap'', ''values do not overlap''),
     (''not_identical'', ''values are not identical''),
     (''not_a_subset'', ''not a subset of parent set''),
     (''arguments_invalid'', ''provided arguments are invalid''),
     (''structures_incompatible'', ''structures are not compatible''),
     (''value_out_of_bounds'', ''value is out of bounds'')]"

text \<open>\<^verbatim>\<open>raise MetagraphException(arg, resources[key])\<close>\<close>

definition raise_MetagraphException :: "string \<Rightarrow> string \<Rightarrow> error + 'r" where
  "raise_MetagraphException arg key =
    (case map_of resources key of
       None \<Rightarrow> Inl (KeyError key)
     | Some message \<Rightarrow> Inl (MetagraphException arg message))"

section \<open>Primitives\<close>

text \<open>
  Python sets are HOL sets; \<^verbatim>\<open>len(s) == 0\<close> is \<open>s = {}\<close>. A set that the code
  indexes (\<^verbatim>\<open>list(self.generating_set)[i]\<close>) is a list: its elements in the order
  Python iterates the set. An argument that may be \<^verbatim>\<open>None\<close> is an option.

  \<^verbatim>\<open>Edge\<close> and \<^verbatim>\<open>Triple\<close> define no \<^verbatim>\<open>__eq__\<close>, so Python's \<^verbatim>\<open>==\<close> and \<^verbatim>\<open>in\<close> compare
  such objects by identity. The field \<open>eid\<close> is the identity of an \<^verbatim>\<open>Edge\<close> object
  (its address): two records stand for the same object exactly when they are equal,
  and HOL's \<open>=\<close> and \<open>\<in> set\<close> on edges are Python's \<^verbatim>\<open>==\<close> and \<^verbatim>\<open>in\<close>.
\<close>

datatype element = Num int | Str string

record 'a Node =
  element_set :: "'a set"

record 'a Edge =
  invertex :: "'a set"
  outvertex :: "'a set"
  attributes :: "'a list option"
  label :: "string option"
  eid :: nat

definition Node_init :: "'a set \<Rightarrow> error + 'a Node" where
  "Node_init elts =
    (if elts = {} then raise_MetagraphException ''element_set'' ''value_null''
     else Inr \<lparr>element_set = elts\<rparr>)"

text \<open>\<^verbatim>\<open>Edge.__init__\<close>; the last argument is the identity of the new object.\<close>

definition Edge_init ::
  "'a set \<Rightarrow> 'a set \<Rightarrow> 'a list option \<Rightarrow> string option \<Rightarrow> nat \<Rightarrow> error + 'a Edge" where
  "Edge_init iv ov attrs lbl oid =
    (if iv = {} then raise_MetagraphException ''invertex'' ''value_null''
     else if ov = {} then raise_MetagraphException ''outvertex'' ''value_null''
     else Inr \<lparr>invertex = (case attrs of None \<Rightarrow> iv | Some as \<Rightarrow> iv \<union> set as),
               outvertex = ov, attributes = attrs, label = lbl, eid = oid\<rparr>)"

definition are_nodes_equal :: "'a Node \<Rightarrow> 'a Node \<Rightarrow> bool" where
  "are_nodes_equal node1 node2 \<longleftrightarrow> element_set node1 = element_set node2"

definition is_node_in_list :: "'a Node \<Rightarrow> 'a Node list \<Rightarrow> bool" where
  "is_node_in_list node node_list \<longleftrightarrow> list_ex (are_nodes_equal node) node_list"

definition are_edges_equal :: "'a Edge \<Rightarrow> 'a Edge \<Rightarrow> bool" where
  "are_edges_equal edge1 edge2 \<longleftrightarrow>
    (case (attributes edge1, attributes edge2) of
       (Some a1, Some a2) \<Rightarrow>
         invertex edge1 = invertex edge2 \<and> outvertex edge1 = outvertex edge2 \<and>
         set a1 = set a2 \<and> label edge1 = label edge2
     | _ \<Rightarrow>
         invertex edge1 = invertex edge2 \<and> outvertex edge1 = outvertex edge2 \<and>
         label edge1 = label edge2)"

text \<open>\<^verbatim>\<open>is_edge_in_list\<close> on a flat list of edges.\<close>

definition is_edge_in_list :: "'a Edge \<Rightarrow> 'a Edge list \<Rightarrow> bool" where
  "is_edge_in_list edge nested_edges \<longleftrightarrow> list_ex (are_edges_equal edge) nested_edges"

text \<open>
  The body shared by the loops of \<^verbatim>\<open>add_edge\<close> and \<^verbatim>\<open>add_edges_from\<close> that
  register the two nodes of an edge: \<^verbatim>\<open>Node(...)\<close> raises on an empty vertex.
\<close>

definition append_node :: "'a Node \<Rightarrow> 'a Node list \<Rightarrow> 'a Node list" where
  "append_node node ns = (if \<not> is_node_in_list node ns then ns @ [node] else ns)"

definition add_edge_nodes :: "'a Edge \<Rightarrow> 'a Node list \<Rightarrow> error + 'a Node list" where
  "add_edge_nodes edge ns =
    (case Node_init (invertex edge) of
       Inl e \<Rightarrow> Inl e
     | Inr node1 \<Rightarrow>
        (case Node_init (outvertex edge) of
           Inl e \<Rightarrow> Inl e
         | Inr node2 \<Rightarrow> Inr (append_node node2 (append_node node1 ns))))"

section \<open>Triples and their product\<close>

text \<open>
  The \<^verbatim>\<open>edges\<close> of a \<^verbatim>\<open>Triple\<close> are one \<^verbatim>\<open>Edge\<close> object (the triples of an
  adjacency matrix) or a list of them (the triples that \<^verbatim>\<open>multiply_triples\<close>
  builds). \<open>tid\<close> is the identity of the \<^verbatim>\<open>Triple\<close> object. A function that
  constructs triples takes the next free identity and returns the next free one
  after it.
\<close>

datatype 'a EdgeGroup = Single "'a Edge" | Many "'a Edge list"

record 'a Triple =
  coinputs :: "'a set option"
  cooutputs :: "'a set option"
  edges :: "'a EdgeGroup"
  tid :: nat

text \<open>
  \<^verbatim>\<open>multiply_triples\<close>. For the edges, \<^verbatim>\<open>triple1.edges not in truncated\<close> holds
  trivially, \<^verbatim>\<open>truncated\<close> being empty. When \<^verbatim>\<open>triple2.edges\<close> is a list, the test
  \<^verbatim>\<open>triple2.edges not in truncated\<close> compares that list with the \<^verbatim>\<open>Edge\<close> objects
  in \<^verbatim>\<open>truncated\<close> and holds, and the assignment
  \<^verbatim>\<open>truncated = [edge for edge in triple2.edges]\<close> replaces what \<^verbatim>\<open>truncated\<close> held.
\<close>

definition multiply_triples ::
  "'a Triple option \<Rightarrow> 'a Triple option \<Rightarrow> 'a \<Rightarrow> 'a \<Rightarrow> 'a \<Rightarrow> nat \<Rightarrow> 'a Triple option" where
  "multiply_triples triple1 triple2 x_i x_j x_k oid =
    (case (triple1, triple2) of
       (Some t1, Some t2) \<Rightarrow>
         (let alpha_r0 =
                (if coinputs t2 = None then coinputs t1
                 else if coinputs t1 \<noteq> None
                 then Some (the (coinputs t1) \<union> the (coinputs t2))
                 else coinputs t2);
              alpha_r =
                (if alpha_r0 \<noteq> None \<and> cooutputs t1 \<noteq> None
                 then Some (the alpha_r0 - ({x_i} \<union> the (cooutputs t1)))
                 else if alpha_r0 \<noteq> None then Some (the alpha_r0 - {x_i})
                 else alpha_r0);
              beta_r0 =
                (if cooutputs t2 = None then cooutputs t1
                 else if cooutputs t1 \<noteq> None
                 then Some (the (cooutputs t1) \<union> the (cooutputs t2))
                 else cooutputs t2);
              beta_r =
                (if beta_r0 \<noteq> None then Some ((the beta_r0 \<union> {x_k}) - {x_j})
                 else Some ({x_k} - {x_j}));
              truncated1 = (case edges t1 of Single e \<Rightarrow> [e] | Many es \<Rightarrow> es);
              gamma_r =
                (case edges t2 of
                   Single e \<Rightarrow> (if e \<notin> set truncated1 then truncated1 @ [e] else truncated1)
                 | Many es \<Rightarrow> es)
          in Some \<lparr>coinputs = alpha_r, cooutputs = beta_r, edges = Many gamma_r, tid = oid\<rparr>)
     | _ \<Rightarrow> None)"

text \<open>
  The product as the specification words it, for comparison: absent operands are
  empty sets, the coinputs are absent when no element remains, and the edges are
  the two collections one after the other with the edges that are equal (by
  \<^verbatim>\<open>are_edges_equal\<close>) to an earlier one left out.
\<close>

definition operand :: "'a set option \<Rightarrow> 'a set" where
  "operand s = (case s of None \<Rightarrow> {} | Some A \<Rightarrow> A)"

definition edge_list_of :: "'a EdgeGroup \<Rightarrow> 'a Edge list" where
  "edge_list_of g = (case g of Single e \<Rightarrow> [e] | Many es \<Rightarrow> es)"

fun dedup_by_edge_equality :: "'a Edge list \<Rightarrow> 'a Edge list \<Rightarrow> 'a Edge list" where
  "dedup_by_edge_equality [] seen = seen"
| "dedup_by_edge_equality (e # es) seen =
    dedup_by_edge_equality es (if is_edge_in_list e seen then seen else seen @ [e])"

definition spec_alpha :: "'a Triple \<Rightarrow> 'a Triple \<Rightarrow> 'a \<Rightarrow> 'a set option" where
  "spec_alpha r1 r2 x_i =
    (let d = (operand (coinputs r1) \<union> operand (coinputs r2)) - ({x_i} \<union> operand (cooutputs r1))
     in if d = {} then None else Some d)"

definition spec_beta :: "'a Triple \<Rightarrow> 'a Triple \<Rightarrow> 'a \<Rightarrow> 'a \<Rightarrow> 'a set" where
  "spec_beta r1 r2 x_j x_k = (operand (cooutputs r1) \<union> operand (cooutputs r2) \<union> {x_k}) - {x_j}"

definition spec_gamma :: "'a Triple \<Rightarrow> 'a Triple \<Rightarrow> 'a Edge list" where
  "spec_gamma r1 r2 =
    dedup_by_edge_equality (edge_list_of (Triple.edges r1) @ edge_list_of (Triple.edges r2)) []"

section \<open>Metagraphs\<close>

text \<open>
  A cell of an adjacency matrix or of a product of two of them is \<^verbatim>\<open>None\<close> or a
  list of triples. \<^verbatim>\<open>add_adjacency_matrices\<close> joins two cells that are both
  lists into the two-element list \<^verbatim>\<open>[cell1, cell2]\<close>, so a cell of a closure is a
  nested list.
\<close>

datatype 'a Nested = Leaf "'a Triple" | Nest "'a Nested list"

type_synonym 'a adjacency = "'a Triple list option list list"
type_synonym 'a closure = "'a Nested option list list"

record 'a Metagraph =
  nodes :: "'a Node list"
  edges :: "'a Edge list"
  generating_set :: "'a list"
  a_star :: "'a closure option"

definition Metagraph_init :: "'a list \<Rightarrow> error + 'a Metagraph" where
  "Metagraph_init generator_set =
    (if generator_set = [] then raise_MetagraphException ''generator_set'' ''value_null''
     else Inr \<lparr>nodes = [], edges = [], generating_set = generator_set, a_star = None\<rparr>)"

definition add_edge :: "'a Metagraph \<Rightarrow> 'a Edge \<Rightarrow> error + 'a Metagraph" where
  "add_edge mg edge =
    (case add_edge_nodes edge (nodes mg) of
       Inl e \<Rightarrow> Inl e
     | Inr ns \<Rightarrow>
         Inr (mg\<lparr>nodes := ns,
                 edges := (if \<not> is_edge_in_list edge (edges mg) then edges mg @ [edge]
                           else edges mg)\<rparr>))"


text \<open>
  The insertion loop of \<^verbatim>\<open>add_edges_from\<close>, of \<^verbatim>\<open>Metagraph\<close> and of
  \<^verbatim>\<open>ConditionalMetagraph\<close> alike; here \<^verbatim>\<open>edge not in self.edges\<close> is by identity.
\<close>

fun insert_edges ::
  "'a Edge list \<Rightarrow> 'a Node list \<times> 'a Edge list \<Rightarrow> error + ('a Node list \<times> 'a Edge list)" where
  "insert_edges [] (ns, es) = Inr (ns, es)"
| "insert_edges (edge # rest) (ns, es) =
    (case add_edge_nodes edge ns of
       Inl e \<Rightarrow> Inl e
     | Inr ns' \<Rightarrow> insert_edges rest (ns', if edge \<notin> set es then es @ [edge] else es))"

definition add_edges_from :: "'a Metagraph \<Rightarrow> 'a Edge list option \<Rightarrow> error + 'a Metagraph" where
  "add_edges_from mg edge_list =
    (case edge_list of
       None \<Rightarrow> raise_MetagraphException ''edge_list'' ''value_null''
     | Some [] \<Rightarrow> raise_MetagraphException ''edge_list'' ''value_null''
     | Some el \<Rightarrow>
        (case insert_edges el (nodes mg, edges mg) of
           Inl e \<Rightarrow> Inl e
         | Inr (ns, es) \<Rightarrow> Inr (mg\<lparr>nodes := ns, edges := es\<rparr>)))"

text \<open>
  \<^verbatim>\<open>incidence_matrix\<close>: \<^verbatim>\<open>if\<close> on the invertex, \<^verbatim>\<open>elif\<close> on the outvertex. The cells
  are integers or \<^verbatim>\<open>None\<close>, which numpy's \<^verbatim>\<open>matrix\<close> takes as they are.
\<close>

definition incidence_matrix :: "'a Metagraph \<Rightarrow> int option list list" where
  "incidence_matrix mg =
    map (\<lambda>i. map (\<lambda>j. (let x_i = generating_set mg ! i; e_j = edges mg ! j
                         in if x_i \<in> invertex e_j then Some (- 1)
                            else if x_i \<in> outvertex e_j then Some 1
                            else None))
               [0 ..< length (edges mg)])
        [0 ..< length (generating_set mg)]"

section \<open>Loops\<close>

text \<open>
  A \<^verbatim>\<open>for\<close> loop whose body may raise: the state after the body is the state of
  the next iteration, and an exception ends the loop. \<open>fill\<close> is a loop that
  assigns one entry of a fresh list for each index it visits.
\<close>

fun for_loop :: "'x list \<Rightarrow> ('x \<Rightarrow> 's \<Rightarrow> error + 's) \<Rightarrow> 's \<Rightarrow> error + 's" where
  "for_loop [] body s = Inr s"
| "for_loop (x # xs) body s =
    (case body x s of Inl e \<Rightarrow> Inl e | Inr s' \<Rightarrow> for_loop xs body s')"

fun fill :: "'x list \<Rightarrow> ('x \<Rightarrow> nat \<Rightarrow> error + ('y \<times> nat)) \<Rightarrow> nat \<Rightarrow> error + ('y list \<times> nat)" where
  "fill [] entry oid = Inr ([], oid)"
| "fill (x # xs) entry oid =
    (case entry x oid of
       Inl e \<Rightarrow> Inl e
     | Inr (y, oid') \<Rightarrow>
        (case fill xs entry oid' of
           Inl e \<Rightarrow> Inl e
         | Inr (ys, oid'') \<Rightarrow> Inr (y # ys, oid'')))"

text \<open>\<^verbatim>\<open>matrix[i][j]\<close>\<close>

definition cell_at :: "'c list list \<Rightarrow> nat \<Rightarrow> nat \<Rightarrow> error + 'c" where
  "cell_at m i j =
    (if i < length m \<and> j < length (m ! i) then Inr (m ! i ! j) else Inl IndexError)"

section \<open>numpy's matrix\<close>

text \<open>
  \<^verbatim>\<open>adjacency_matrix\<close> and \<^verbatim>\<open>get_closure\<close> return \<^verbatim>\<open>matrix(table)\<close>, and their callers
  take the table back with \<^verbatim>\<open>.tolist()\<close>. \<^verbatim>\<open>matrix\<close> builds an array from the nested
  list and raises \<^verbatim>\<open>ValueError\<close> when that array has more than two dimensions.
  The numpy that \<^verbatim>\<open>setup.py\<close> requires (1.10.2) finds the dimensions of a nested
  list so: \<^verbatim>\<open>None\<close> and a \<^verbatim>\<open>Triple\<close> have none; a list has its length, followed by
  the dimensions that all its elements share from the left; an empty list has
  the one dimension \<open>0\<close>. (numpy looks no deeper than 32 dimensions, which changes
  nothing about there being more than two.) An array of two dimensions holds the
  cells as they are, and \<^verbatim>\<open>.tolist()\<close> gives the table back. The empty table is an
  array of the one dimension \<open>0\<close>, which \<^verbatim>\<open>matrix\<close> turns into one empty row; the
  tables built here have rows of one length, so no other array of one dimension
  arises.
\<close>

fun common_prefix :: "nat list \<Rightarrow> nat list \<Rightarrow> nat list" where
  "common_prefix (x # xs) (y # ys) = (if x = y then x # common_prefix xs ys else [])"
| "common_prefix xs ys = []"

definition sequence_dimensions :: "nat list list \<Rightarrow> nat list" where
  "sequence_dimensions ds =
    (case ds of
       [] \<Rightarrow> [0]
     | d # rest \<Rightarrow> length ds # fold (\<lambda>e shared. common_prefix shared e) rest d)"

fun nested_dimensions :: "'a Nested \<Rightarrow> nat list" where
  "nested_dimensions (Leaf t) = []"
| "nested_dimensions (Nest elts) = sequence_dimensions (map nested_dimensions elts)"

definition triples_cell_dimensions :: "'a Triple list option \<Rightarrow> nat list" where
  "triples_cell_dimensions cell =
    (case cell of None \<Rightarrow> [] | Some ts \<Rightarrow> sequence_dimensions (map (\<lambda>t. []) ts))"

definition nested_cell_dimensions :: "'a Nested option \<Rightarrow> nat list" where
  "nested_cell_dimensions cell = (case cell of None \<Rightarrow> [] | Some n \<Rightarrow> nested_dimensions n)"

definition table_dimensions :: "('c \<Rightarrow> nat list) \<Rightarrow> 'c list list \<Rightarrow> nat list" where
  "table_dimensions cell_dimensions table =
    sequence_dimensions (map (\<lambda>row. sequence_dimensions (map cell_dimensions row)) table)"

text \<open>\<^verbatim>\<open>matrix(table).tolist()\<close>\<close>

definition matrix :: "('c \<Rightarrow> nat list) \<Rightarrow> 'c list list \<Rightarrow> error + 'c list list" where
  "matrix cell_dimensions table =
    (if length (table_dimensions cell_dimensions table) > 2
     then Inl (ValueError ''matrix must be 2-dimensional'')
     else if table = [] then Inr [[]]
     else Inr table)"

section \<open>The adjacency matrix\<close>

fun get_edges_loop :: "'a Edge list \<Rightarrow> 'a \<Rightarrow> 'a \<Rightarrow> 'a Edge list \<Rightarrow> 'a Edge list" where
  "get_edges_loop [] iv ov result = result"
| "get_edges_loop (edge # rest) iv ov result =
    get_edges_loop rest iv ov
      (if iv \<in> invertex edge \<and> ov \<in> outvertex edge \<and> edge \<notin> set result
       then result @ [edge] else result)"

definition get_edges :: "'a Metagraph \<Rightarrow> 'a \<Rightarrow> 'a \<Rightarrow> 'a Edge list" where
  "get_edges mg iv ov = get_edges_loop (Metagraph.edges mg) iv ov []"

definition get_coinputs :: "'a Edge \<Rightarrow> 'a \<Rightarrow> 'a set option" where
  "get_coinputs edge x_i =
    (if x_i \<in> invertex edge \<and> invertex edge - {x_i} \<noteq> {}
     then Some (invertex edge - {x_i}) else None)"

definition get_cooutputs :: "'a Edge \<Rightarrow> 'a \<Rightarrow> 'a set option" where
  "get_cooutputs edge x_j =
    (if x_j \<in> outvertex edge \<and> outvertex edge - {x_j} \<noteq> {}
     then Some (outvertex edge - {x_j}) else None)"

text \<open>
  The loop of \<^verbatim>\<open>adjacency_matrix\<close> over the edges between \<open>x_i\<close> and \<open>x_j\<close>: one
  new \<^verbatim>\<open>Triple\<close> for each edge.
\<close>

fun triples_of_edges ::
  "'a Edge list \<Rightarrow> 'a \<Rightarrow> 'a \<Rightarrow> 'a Triple list \<Rightarrow> nat \<Rightarrow> 'a Triple list \<times> nat" where
  "triples_of_edges [] x_i x_j triples_list oid = (triples_list, oid)"
| "triples_of_edges (edge # rest) x_i x_j triples_list oid =
    (let triple = \<lparr>coinputs = get_coinputs edge x_i, cooutputs = get_cooutputs edge x_j,
                    edges = Single edge, tid = oid\<rparr>
     in triples_of_edges rest x_i x_j
          (if triple \<notin> set triples_list then triples_list @ [triple] else triples_list)
          (Suc oid))"

definition adjacency_cell :: "'a Metagraph \<Rightarrow> nat \<Rightarrow> nat \<Rightarrow> nat \<Rightarrow> 'a Triple list option \<times> nat" where
  "adjacency_cell mg i j oid =
    (let x_i = Metagraph.generating_set mg ! i;
         x_j = Metagraph.generating_set mg ! j;
         es = get_edges mg x_i x_j
     in if length es > 0
        then (case triples_of_edges es x_i x_j [] oid of (ts, oid') \<Rightarrow> (Some ts, oid'))
        else (None, oid))"

text \<open>
  The table that the loops of \<^verbatim>\<open>adjacency_matrix\<close> fill, and \<^verbatim>\<open>adjacency_matrix\<close>
  itself, which returns \<^verbatim>\<open>matrix(adj_matrix)\<close>.
\<close>

definition adjacency_table :: "'a Metagraph \<Rightarrow> nat \<Rightarrow> error + ('a adjacency \<times> nat)" where
  "adjacency_table mg oid =
    (let sz = length (Metagraph.generating_set mg)
     in fill [0 ..< sz] (\<lambda>i. fill [0 ..< sz] (\<lambda>j oid'. Inr (adjacency_cell mg i j oid'))) oid)"

definition adjacency_matrix :: "'a Metagraph \<Rightarrow> nat \<Rightarrow> error + ('a adjacency \<times> nat)" where
  "adjacency_matrix mg oid =
    (case adjacency_table mg oid of
       Inl e \<Rightarrow> Inl e
     | Inr (adj_matrix, oid') \<Rightarrow>
        (case matrix triples_cell_dimensions adj_matrix of
           Inl e \<Rightarrow> Inl e
         | Inr m \<Rightarrow> Inr (m, oid')))"

section \<open>Products and sums of adjacency matrices\<close>

text \<open>
  \<^verbatim>\<open>are_triples_equal\<close> iterates over the \<^verbatim>\<open>edges\<close> of both triples and takes their
  \<^verbatim>\<open>len\<close>: a \<^verbatim>\<open>TypeError\<close> when one of them is a single \<^verbatim>\<open>Edge\<close>.
\<close>

definition are_triples_equal :: "'a Triple \<Rightarrow> 'a Triple \<Rightarrow> error + bool" where
  "are_triples_equal triple1 triple2 =
    (case (Triple.edges triple1, Triple.edges triple2) of
       (Many es1, Many es2) \<Rightarrow>
         Inr (coinputs triple1 = coinputs triple2 \<and> cooutputs triple1 = cooutputs triple2 \<and>
              length es1 = length es2 \<and>
              (\<forall>edge \<in> set es1. is_edge_in_list edge es2) \<and>
              (\<forall>edge \<in> set es2. is_edge_in_list edge es1))
     | _ \<Rightarrow> Inl (TypeError ''Edge object is not iterable''))"

fun is_triple_in_list :: "'a Triple \<Rightarrow> 'a Triple list \<Rightarrow> error + bool" where
  "is_triple_in_list triple [] = Inr False"
| "is_triple_in_list triple (element # rest) =
    (case are_triples_equal triple element of
       Inl e \<Rightarrow> Inl e
     | Inr found \<Rightarrow> if found then Inr True else is_triple_in_list triple rest)"

definition append_triple ::
  "'a Triple \<Rightarrow> 'a Triple list \<Rightarrow> error + 'a Triple list" where
  "append_triple triple result =
    (case is_triple_in_list triple result of
       Inl e \<Rightarrow> Inl e
     | Inr found \<Rightarrow> Inr (if \<not> found then result @ [triple] else result))"

text \<open>
  The body of the inner loop of \<^verbatim>\<open>multiply_triple_lists\<close>, on the list built so
  far and the next free identity.
\<close>

fun triple_lists_body ::
  "'a \<Rightarrow> 'a \<Rightarrow> 'a \<Rightarrow> 'a Triple \<Rightarrow> 'a Triple \<Rightarrow> 'a Triple list \<times> nat \<Rightarrow>
   error + ('a Triple list \<times> nat)" where
  "triple_lists_body x_i x_j x_k triple1 triple2 (result, oid) =
    (case multiply_triples (Some triple1) (Some triple2) x_i x_j x_k oid of
       None \<Rightarrow> Inr (result, oid)
     | Some temp \<Rightarrow>
        (case append_triple temp result of
           Inl e \<Rightarrow> Inl e
         | Inr result' \<Rightarrow> Inr (result', Suc oid)))"

definition multiply_triple_lists ::
  "'a Triple list option \<Rightarrow> 'a Triple list option \<Rightarrow> 'a \<Rightarrow> 'a \<Rightarrow> 'a \<Rightarrow> nat \<Rightarrow>
   error + ('a Triple list option \<times> nat)" where
  "multiply_triple_lists triple_list1 triple_list2 x_i x_j x_k oid =
    (case (triple_list1, triple_list2) of
       (Some l1, Some l2) \<Rightarrow>
         (case for_loop l1 (\<lambda>triple1. for_loop l2 (triple_lists_body x_i x_j x_k triple1))
                 ([], oid) of
            Inl e \<Rightarrow> Inl e
          | Inr (result, oid') \<Rightarrow> Inr (Some result, oid'))
     | _ \<Rightarrow> Inr (None, oid))"

text \<open>The body of the loop of \<^verbatim>\<open>multiply_components\<close> over \<open>k\<close>.\<close>

fun components_body ::
  "'a adjacency \<Rightarrow> 'a adjacency \<Rightarrow> 'a list \<Rightarrow> nat \<Rightarrow> nat \<Rightarrow> nat \<Rightarrow> 'a Triple list \<times> nat \<Rightarrow>
   error + ('a Triple list \<times> nat)" where
  "components_body adjacency_matrix1 adjacency_matrix2 generator_set1 i j k (result, oid) =
    (case cell_at adjacency_matrix1 i k of
       Inl e \<Rightarrow> Inl e
     | Inr a_ik \<Rightarrow>
        (case cell_at adjacency_matrix2 k j of
           Inl e \<Rightarrow> Inl e
         | Inr b_kj \<Rightarrow>
            (case multiply_triple_lists a_ik b_kj (generator_set1 ! i)
                    (generator_set1 ! j) (generator_set1 ! k) oid of
               Inl e \<Rightarrow> Inl e
             | Inr (None, oid') \<Rightarrow> Inr (result, oid')
             | Inr (Some temp, oid') \<Rightarrow>
                (case for_loop temp append_triple result of
                   Inl e \<Rightarrow> Inl e
                 | Inr result' \<Rightarrow> Inr (result', oid')))))"

definition multiply_components ::
  "'a adjacency \<Rightarrow> 'a adjacency \<Rightarrow> 'a list \<Rightarrow> nat \<Rightarrow> nat \<Rightarrow> nat \<Rightarrow> nat \<Rightarrow>
   error + ('a Triple list option \<times> nat)" where
  "multiply_components adjacency_matrix1 adjacency_matrix2 generator_set1 i j sz oid =
    (if generator_set1 = [] then raise_MetagraphException ''generator_set1'' ''value_null''
     else
      (case for_loop [0 ..< sz]
              (components_body adjacency_matrix1 adjacency_matrix2 generator_set1 i j)
              ([], oid) of
         Inl e \<Rightarrow> Inl e
       | Inr (result, oid') \<Rightarrow> Inr (if length result = 0 then None else Some result, oid')))"

definition multiply_adjacency_matrices ::
  "'a adjacency \<Rightarrow> 'a list \<Rightarrow> 'a adjacency \<Rightarrow> 'a list \<Rightarrow> nat \<Rightarrow> error + ('a adjacency \<times> nat)" where
  "multiply_adjacency_matrices adjacency_matrix1 generator_set1 adjacency_matrix2 generator_set2 oid =
    (if \<not> (set generator_set1 - set generator_set2 = {} \<and>
            set generator_set2 - set generator_set1 = {})
     then raise_MetagraphException ''generator_sets'' ''not_identical''
     else
      (let sz = length generator_set1
       in fill [0 ..< sz]
            (\<lambda>i. fill [0 ..< sz]
               (\<lambda>j. multiply_components adjacency_matrix1 adjacency_matrix2 generator_set1 i j sz))
            oid))"

text \<open>
  \<^verbatim>\<open>add_adjacency_matrices\<close> for two matrices over the same generating set, which
  is how \<^verbatim>\<open>get_closure\<close> calls it: the first matrix is the closure accumulated so
  far, the second a product.
\<close>

definition as_nested :: "'a Triple list \<Rightarrow> 'a Nested" where
  "as_nested ts = Nest (map Leaf ts)"

definition add_cells :: "'a Nested option \<Rightarrow> 'a Triple list option \<Rightarrow> 'a Nested option" where
  "add_cells c1 c2 =
    (case c1 of
       None \<Rightarrow> map_option as_nested c2
     | Some n1 \<Rightarrow>
        (case c2 of
           None \<Rightarrow> Some n1
         | Some ts2 \<Rightarrow> Some (Nest [n1, as_nested ts2])))"

definition add_entry ::
  "'a closure \<Rightarrow> 'a adjacency \<Rightarrow> nat \<Rightarrow> nat \<Rightarrow> nat \<Rightarrow> error + ('a Nested option \<times> nat)" where
  "add_entry adjacency_matrix1 adjacency_matrix2 i j oid =
    (case cell_at adjacency_matrix1 i j of
       Inl e \<Rightarrow> Inl e
     | Inr c1 \<Rightarrow>
        (case cell_at adjacency_matrix2 i j of
           Inl e \<Rightarrow> Inl e
         | Inr c2 \<Rightarrow> Inr (add_cells c1 c2, oid)))"

definition add_adjacency_matrices ::
  "'a closure \<Rightarrow> 'a adjacency \<Rightarrow> nat \<Rightarrow> error + 'a closure" where
  "add_adjacency_matrices adjacency_matrix1 adjacency_matrix2 sz =
    map_sum id fst
      (fill [0 ..< sz] (\<lambda>i. fill [0 ..< sz] (add_entry adjacency_matrix1 adjacency_matrix2 i)) 0)"

section \<open>The closure\<close>

text \<open>
  The loop of \<^verbatim>\<open>get_closure\<close>; the first argument counts the iterations that
  \<^verbatim>\<open>range(size)\<close> has left. \<^verbatim>\<open>a[i+1] == a[i]\<close> compares two tables of lists of
  \<^verbatim>\<open>Triple\<close> objects: lists by their elements, triples by identity.
\<close>

fun closure_loop ::
  "nat \<Rightarrow> 'a list \<Rightarrow> 'a adjacency \<Rightarrow> 'a adjacency \<Rightarrow> 'a closure \<Rightarrow> nat \<Rightarrow>
   error + ('a closure \<times> nat)" where
  "closure_loop 0 gs adjacency a_i star oid = Inr (star, oid)"
| "closure_loop (Suc n) gs adjacency a_i star oid =
    (case multiply_adjacency_matrices a_i gs adjacency gs oid of
       Inl e \<Rightarrow> Inl e
     | Inr (a_next, oid') \<Rightarrow>
        (case add_adjacency_matrices star a_next (length gs) of
           Inl e \<Rightarrow> Inl e
         | Inr star' \<Rightarrow>
            if a_next = a_i then Inr (star', oid')
            else closure_loop n gs adjacency a_next star' oid'))"

definition get_closure :: "'a Metagraph \<Rightarrow> nat \<Rightarrow> error + ('a closure \<times> nat)" where
  "get_closure mg oid =
    (case adjacency_matrix mg oid of
       Inl e \<Rightarrow> Inl e
     | Inr (adjacency, oid') \<Rightarrow>
        (case closure_loop (length (Metagraph.generating_set mg)) (Metagraph.generating_set mg)
                adjacency adjacency (map (map (map_option as_nested)) adjacency) oid' of
           Inl e \<Rightarrow> Inl e
         | Inr (star, oid'') \<Rightarrow>
            (case matrix nested_cell_dimensions star of
               Inl e \<Rightarrow> Inl e
             | Inr m \<Rightarrow> Inr (m, oid''))))"












section \<open>Conditional metagraphs\<close>

text \<open>
  \<^verbatim>\<open>ConditionalMetagraph\<close> with the fields it inherits from \<^verbatim>\<open>Metagraph\<close>. Its
  generating set is the union of two sets and no operation modelled here indexes
  it, so it stays a set. The closure cache of a conditional metagraph is never
  filled (its metapath queries go through the inner metagraph \<^verbatim>\<open>mg\<close>), so the
  fields \<^verbatim>\<open>a_star\<close> and \<^verbatim>\<open>mg\<close>, both \<^verbatim>\<open>None\<close> after construction and read by none
  of the operations below, are left out of the record.
\<close>

record 'a ConditionalMetagraph =
  nodes :: "'a Node list"
  edges :: "'a Edge list"
  variables_set :: "'a set"
  propositions_set :: "'a set"
  generating_set :: "'a set"

text \<open>
  \<^verbatim>\<open>ConditionalMetagraph.__init__\<close>, followed by the check of
  \<^verbatim>\<open>Metagraph.__init__\<close> on the union.
\<close>

definition ConditionalMetagraph_init ::
  "'a set \<Rightarrow> 'a set \<Rightarrow> error + 'a ConditionalMetagraph" where
  "ConditionalMetagraph_init vs ps =
    (if vs \<inter> ps \<noteq> {}
     then raise_MetagraphException ''variables_and_propositions'' ''partition_invalid''
     else if vs \<union> ps = {}
     then raise_MetagraphException ''generator_set'' ''value_null''
     else Inr \<lparr>nodes = [], edges = [], variables_set = vs, propositions_set = ps,
               generating_set = vs \<union> ps\<rparr>)"

text \<open>
  \<^verbatim>\<open>ConditionalMetagraph.add_edges_from\<close>: first the loop that validates every
  edge, then the loop that inserts. \<^verbatim>\<open>edge not in self.edges\<close> is by identity.
\<close>

fun cm_validate_edges :: "'a set \<Rightarrow> 'a Edge list \<Rightarrow> error + unit" where
  "cm_validate_edges ps [] = Inr ()"
| "cm_validate_edges ps (edge # rest) =
    (if invertex edge \<union> outvertex edge = {}
     then raise_MetagraphException ''edge'' ''value_null''
     else if (\<exists>proposition \<in> ps. proposition \<in> outvertex edge) \<and> card (outvertex edge) > 1
     then raise_MetagraphException ''edge'' ''value_invalid''
     else cm_validate_edges ps rest)"

definition cm_add_edges_from ::
  "'a ConditionalMetagraph \<Rightarrow> 'a Edge list option \<Rightarrow> error + 'a ConditionalMetagraph" where
  "cm_add_edges_from cmg edge_list =
    (case edge_list of
       None \<Rightarrow> raise_MetagraphException ''edge_list'' ''value_null''
     | Some [] \<Rightarrow> raise_MetagraphException ''edge_list'' ''value_null''
     | Some el \<Rightarrow>
        (case cm_validate_edges (propositions_set cmg) el of
           Inl e \<Rightarrow> Inl e
         | Inr _ \<Rightarrow>
            (case insert_edges el (nodes cmg, edges cmg) of
               Inl e \<Rightarrow> Inl e
             | Inr (ns, es) \<Rightarrow> Inr (cmg\<lparr>nodes := ns, edges := es\<rparr>))))"

text \<open>
  \<^verbatim>\<open>get_context\<close>. The propositions arrive as a set or a list (the callers in
  \<^verbatim>\<open>is_connected\<close> and its siblings pass lists); the model takes them in iteration
  order. In the loop over the true propositions the source calls
  \<^verbatim>\<open>edge.invertex.difference({proposition})\<close> and drops the result: the set method
  returns a new set and leaves \<^verbatim>\<open>edge.invertex\<close> as it was, so the test
  \<^verbatim>\<open>len(edge.invertex) == 0\<close> reads the unchanged vertex.
\<close>

fun check_propositions :: "string \<Rightarrow> 'a set \<Rightarrow> 'a list \<Rightarrow> error + unit" where
  "check_propositions arg ps [] = Inr ()"
| "check_propositions arg ps (proposition # rest) =
    (if proposition \<notin> ps then raise_MetagraphException arg ''range_invalid''
     else check_propositions arg ps rest)"

fun true_loop :: "'a Edge \<Rightarrow> 'a list \<Rightarrow> 'a Edge list \<Rightarrow> 'a Edge list" where
  "true_loop edge [] edges_to_remove = edges_to_remove"
| "true_loop edge (proposition # rest) edges_to_remove =
    (let r1 = (if proposition \<in> invertex edge
               then (let discarded = invertex edge - {proposition}
                     in if invertex edge = {} \<and> edge \<notin> set edges_to_remove
                        then edges_to_remove @ [edge] else edges_to_remove)
               else edges_to_remove);
         r2 = (if proposition \<in> outvertex edge
               then (let discarded = outvertex edge - {proposition}
                     in if outvertex edge = {} \<and> edge \<notin> set r1
                        then r1 @ [edge] else r1)
               else r1)
     in true_loop edge rest r2)"

fun false_loop :: "'a Edge \<Rightarrow> 'a list \<Rightarrow> 'a Edge list \<Rightarrow> 'a Edge list" where
  "false_loop edge [] edges_to_remove = edges_to_remove"
| "false_loop edge (proposition # rest) edges_to_remove =
    false_loop edge rest
      (if proposition \<in> invertex edge \<or> proposition \<in> outvertex edge
       then (if edge \<notin> set edges_to_remove then edges_to_remove @ [edge] else edges_to_remove)
       else edges_to_remove)"

fun collect_edges_to_remove ::
  "'a list \<Rightarrow> 'a list \<Rightarrow> 'a Edge list \<Rightarrow> 'a Edge list \<Rightarrow> 'a Edge list" where
  "collect_edges_to_remove tp fp [] edges_to_remove = edges_to_remove"
| "collect_edges_to_remove tp fp (edge # rest) edges_to_remove =
    collect_edges_to_remove tp fp rest (false_loop edge fp (true_loop edge tp edges_to_remove))"

fun remove_edges :: "'a Edge list \<Rightarrow> 'a Edge list \<Rightarrow> 'a Edge list" where
  "remove_edges [] edges_copy = edges_copy"
| "remove_edges (edge # rest) edges_copy =
    remove_edges rest (if edge \<in> set edges_copy then remove1 edge edges_copy else edges_copy)"

definition get_context ::
  "'a ConditionalMetagraph \<Rightarrow> 'a list option \<Rightarrow> 'a list option \<Rightarrow>
   error + 'a ConditionalMetagraph" where
  "get_context cmg true_propositions false_propositions =
    (if true_propositions = None \<or> true_propositions = Some []
     then raise_MetagraphException ''true_propositions'' ''value_null''
     else if false_propositions = None \<or> false_propositions = Some []
     then raise_MetagraphException ''false_propositions'' ''value_null''
     else
      (let tp = the true_propositions; fp = the false_propositions in
       case check_propositions ''true_propositions'' (propositions_set cmg) tp of
         Inl e \<Rightarrow> Inl e
       | Inr _ \<Rightarrow>
          (case check_propositions ''false_propositions'' (propositions_set cmg) fp of
             Inl e \<Rightarrow> Inl e
           | Inr _ \<Rightarrow>
              (let edges_to_remove = collect_edges_to_remove tp fp (edges cmg) [];
                   edges_copy = remove_edges edges_to_remove (edges cmg)
               in case ConditionalMetagraph_init (variables_set cmg) (propositions_set cmg) of
                    Inl e \<Rightarrow> Inl e
                  | Inr context \<Rightarrow> cm_add_edges_from context (Some edges_copy)))))"

text \<open>
  The validation of the logical expressions shared by \<^verbatim>\<open>is_connected\<close>,
  \<^verbatim>\<open>is_fully_connected\<close>, \<^verbatim>\<open>is_redundantly_connected\<close> and \<^verbatim>\<open>is_non_redundant\<close>:
  \<^verbatim>\<open>.\<close>, \<^verbatim>\<open>|\<close> and \<^verbatim>\<open>!\<close> become spaces, \<^verbatim>\<open>(\<close> is deleted (the result of the
  call that would delete \<^verbatim>\<open>)\<close> is dropped by the source), the string is split at
  every space, and every non-empty item has to be a proposition.
\<close>

definition replace_char :: "char \<Rightarrow> string \<Rightarrow> string \<Rightarrow> string" where
  "replace_char c new s = concat (map (\<lambda>x. if x = c then new else [x]) s)"

fun split_char :: "char \<Rightarrow> string \<Rightarrow> string list" where
  "split_char c [] = [[]]"
| "split_char c (x # xs) =
    (if x = c then [] # split_char c xs
     else (case split_char c xs of
             [] \<Rightarrow> [[x]]
           | w # ws \<Rightarrow> (x # w) # ws))"

definition expression_items :: "string \<Rightarrow> string list" where
  "expression_items logical_expression =
    split_char (CHR '' '')
      (replace_char (CHR ''('') []
        (replace_char (CHR ''!'') [CHR '' '']
          (replace_char (CHR ''|'') [CHR '' '']
            (replace_char (CHR ''.'') [CHR '' ''] logical_expression))))"

fun check_items :: "element set \<Rightarrow> string list \<Rightarrow> error + unit" where
  "check_items ps [] = Inr ()"
| "check_items ps (item # rest) =
    (if replace_char (CHR '' '') [] item \<noteq> [] \<and> Str (replace_char (CHR '' '') [] item) \<notin> ps
     then raise_MetagraphException ''logical_expression'' ''arguments_invalid''
     else check_items ps rest)"

fun check_expressions :: "element set \<Rightarrow> string list \<Rightarrow> error + unit" where
  "check_expressions ps [] = Inr ()"
| "check_expressions ps (logical_expression # rest) =
    (case check_items ps (expression_items logical_expression) of
       Inl e \<Rightarrow> Inl e
     | Inr _ \<Rightarrow> check_expressions ps rest)"

text \<open>The loop that sorts the propositions of one interpretation into true and false.\<close>

fun split_interpretation ::
  "'a set \<Rightarrow> ('a \<times> bool) list \<Rightarrow> 'a list \<times> 'a list \<Rightarrow> error + ('a list \<times> 'a list)" where
  "split_interpretation ps [] (true_propositions, false_propositions) =
    Inr (true_propositions, false_propositions)"
| "split_interpretation ps (tuple_elt # rest) (true_propositions, false_propositions) =
    (if fst tuple_elt \<notin> ps
     then raise_MetagraphException ''interpretations'' ''arguments_invalid''
     else if snd tuple_elt \<and> fst tuple_elt \<notin> set true_propositions
     then split_interpretation ps rest (true_propositions @ [fst tuple_elt], false_propositions)
     else if fst tuple_elt \<notin> set true_propositions
     then split_interpretation ps rest (true_propositions, false_propositions @ [fst tuple_elt])
     else split_interpretation ps rest (true_propositions, false_propositions))"

text \<open>
  The edges of the context that have \<open>x\<close> in their outvertex, each object once.
\<close>

fun edges_with_output :: "'a \<Rightarrow> 'a Edge list \<Rightarrow> 'a Edge list \<Rightarrow> 'a Edge list" where
  "edges_with_output x [] edge_list = edge_list"
| "edges_with_output x (edge # rest) edge_list =
    edges_with_output x rest
      (if x \<in> outvertex edge \<and> edge \<notin> set edge_list then edge_list @ [edge] else edge_list)"

text \<open>
  \<^verbatim>\<open>is_non_redundant\<close>. In the source the statement \<^verbatim>\<open>return True\<close> stands inside
  the loop over the interpretations, after the loop over the variables: the
  function returns during the first iteration, so the interpretations after the
  first are never read.
\<close>

definition is_non_redundant ::
  "element ConditionalMetagraph \<Rightarrow> string list option \<Rightarrow>
   (element \<times> bool) list list option \<Rightarrow> error + bool" where
  "is_non_redundant cmg logical_expressions interpretations =
    (if logical_expressions = None \<or> logical_expressions = Some []
     then raise_MetagraphException ''logical_expressions'' ''value_null''
     else if interpretations = None \<or> interpretations = Some []
     then raise_MetagraphException ''interpretations'' ''value_null''
     else
      (case check_expressions (propositions_set cmg) (the logical_expressions) of
         Inl e \<Rightarrow> Inl e
       | Inr _ \<Rightarrow>
          (case the interpretations of
             [] \<Rightarrow> Inr True
           | interpretation # later_interpretations \<Rightarrow>
              (case split_interpretation (propositions_set cmg) interpretation ([], []) of
                 Inl e \<Rightarrow> Inl e
               | Inr (true_propositions, false_propositions) \<Rightarrow>
                  (case get_context cmg (Some true_propositions) (Some false_propositions) of
                     Inl e \<Rightarrow> Inl e
                   | Inr context \<Rightarrow>
                      Inr (\<not> (\<exists>x \<in> variables_set cmg.
                               length (edges_with_output x (edges context) []) > 1)))))))"

text \<open>
  The conditional metagraph over the variables \<open>1, 2, 3\<close> and the propositions
  \<open>p\<close>, \<open>q\<close> that the constructor and \<^verbatim>\<open>add_edges_from\<close> build from the edges
  \<open>{1} \<rightarrow> {3}\<close> with attribute \<open>p\<close>, \<open>{2} \<rightarrow> {3}\<close> with attribute \<open>p\<close> and
  \<open>{1} \<rightarrow> {2}\<close> with attribute \<open>q\<close>.
\<close>

definition redundancy_edges :: "element Edge list" where
  "redundancy_edges =
    [\<lparr>invertex = {Num 1, Str ''p''}, outvertex = {Num 3}, attributes = Some [Str ''p''],
      label = None, eid = 0\<rparr>,
     \<lparr>invertex = {Num 2, Str ''p''}, outvertex = {Num 3}, attributes = Some [Str ''p''],
      label = None, eid = 1\<rparr>,
     \<lparr>invertex = {Num 1, Str ''q''}, outvertex = {Num 2}, attributes = Some [Str ''q''],
      label = None, eid = 2\<rparr>]"

definition redundancy_cmg :: "element ConditionalMetagraph" where
  "redundancy_cmg =
    \<lparr>nodes = [\<lparr>element_set = {Num 1, Str ''p''}\<rparr>, \<lparr>element_set = {Num 3}\<rparr>,
              \<lparr>element_set = {Num 2, Str ''p''}\<rparr>, \<lparr>element_set = {Num 1, Str ''q''}\<rparr>,
              \<lparr>element_set = {Num 2}\<rparr>],
     edges = redundancy_edges,
     variables_set = {Num 1, Num 2, Num 3},
     propositions_set = {Str ''p'', Str ''q''},
     generating_set = {Num 1, Num 2, Num 3} \<union> {Str ''p'', Str ''q''}\<rparr>"

section \<open>Metapaths\<close>

text \<open>
  A \<^verbatim>\<open>Metapath\<close> keeps the source and target sets it is given; the code iterates
  over them, so they are lists here, in the order Python iterates the sets.
\<close>

record 'a Metapath =
  source :: "'a list"
  target :: "'a list"
  edge_list :: "'a Edge list"

definition Metapath_init :: "'a list option \<Rightarrow> 'a list option \<Rightarrow> 'a Edge list \<Rightarrow> error + 'a Metapath" where
  "Metapath_init src tgt es =
    (if src = None \<or> src = Some [] then raise_MetagraphException ''source'' ''value_null''
     else if tgt = None \<or> tgt = Some [] then raise_MetagraphException ''target'' ''value_null''
     else Inr \<lparr>source = the src, target = the tgt, edge_list = es\<rparr>)"

text \<open>\<^verbatim>\<open>list(self.generating_set).index(x)\<close>\<close>

fun index_of :: "'a list \<Rightarrow> 'a \<Rightarrow> error + nat" where
  "index_of [] x = Inl (ValueError ''x is not in list'')"
| "index_of (y # ys) x = (if y = x then Inr 0 else map_sum id Suc (index_of ys x))"

definition add_unique :: "'x \<Rightarrow> 'x list \<Rightarrow> 'x list" where
  "add_unique x xs = (if x \<notin> set xs then xs @ [x] else xs)"

text \<open>The rows (or columns) of the elements of a source (or target).\<close>

definition applicable_indices :: "'a list \<Rightarrow> 'a list \<Rightarrow> error + nat list" where
  "applicable_indices gs elts =
    for_loop elts
      (\<lambda>x rows. case index_of gs x of Inl e \<Rightarrow> Inl e | Inr index \<Rightarrow> Inr (add_unique index rows))
      []"

text \<open>
  \<^verbatim>\<open>get_triples\<close> flattens a nested list; it raises on \<^verbatim>\<open>None\<close> and on an empty
  list, at any depth, and \<^verbatim>\<open>len\<close> of a \<^verbatim>\<open>Triple\<close> is a \<^verbatim>\<open>TypeError\<close>.
\<close>

fun get_triples :: "'a Nested \<Rightarrow> error + 'a Triple list"
  and get_triples_loop :: "'a Nested list \<Rightarrow> 'a Triple list \<Rightarrow> error + 'a Triple list" where
  "get_triples (Leaf t) = Inl (TypeError ''object of type Triple has no len()'')"
| "get_triples (Nest elts) =
    (if elts = [] then raise_MetagraphException ''triples_list'' ''value_null''
     else get_triples_loop elts [])"
| "get_triples_loop [] result = Inr result"
| "get_triples_loop (Leaf t # rest) result = get_triples_loop rest (result @ [t])"
| "get_triples_loop (Nest ys # rest) result =
    (case get_triples (Nest ys) of
       Inl e \<Rightarrow> Inl e
     | Inr temp \<Rightarrow> get_triples_loop rest (result @ temp))"

text \<open>
  \<^verbatim>\<open>get_edge_list\<close> on the edges of a triple: the edges, each object once.
\<close>

definition get_edge_list :: "'a EdgeGroup \<Rightarrow> 'a Edge list" where
  "get_edge_list g =
    (case g of
       Single e \<Rightarrow> fold add_unique [e] []
     | Many es \<Rightarrow> fold add_unique es [])"

text \<open>
  The loops of \<^verbatim>\<open>get_all_metapaths_from\<close>. \<^verbatim>\<open>cumulative_output\<close> receives the
  elements \<open>x_j\<close> and, as one item each, the cooutput sets of the triples.
\<close>

definition triple_body ::
  "'a Triple \<Rightarrow> ('a + 'a set) list \<times> 'a Edge list \<Rightarrow> ('a + 'a set) list \<times> 'a Edge list" where
  "triple_body triple s =
    (case s of (cumulative_output, cumulative_edges) \<Rightarrow>
      ((case cooutputs triple of
          None \<Rightarrow> cumulative_output
        | Some output \<Rightarrow> add_unique (Inr output) cumulative_output),
       fold add_unique (get_edge_list (Triple.edges triple)) cumulative_edges))"

fun target_body ::
  "'a closure \<Rightarrow> 'a list \<Rightarrow> nat \<Rightarrow> 'a \<Rightarrow> bool \<times> ('a + 'a set) list \<times> 'a Edge list \<Rightarrow>
   error + (bool \<times> ('a + 'a set) list \<times> 'a Edge list)" where
  "target_body star gs i x_j (metapath_exist, cumulative_output, cumulative_edges) =
    (case index_of gs x_j of
       Inl e \<Rightarrow> Inl e
     | Inr j \<Rightarrow>
        (case cell_at star i j of
           Inl e \<Rightarrow> Inl e
         | Inr None \<Rightarrow> Inr (metapath_exist, cumulative_output, cumulative_edges)
         | Inr (Some cell) \<Rightarrow>
            (case get_triples cell of
               Inl e \<Rightarrow> Inl e
             | Inr triples \<Rightarrow>
                (case fold triple_body triples (cumulative_output @ [Inl x_j], cumulative_edges) of
                   (outputs, es) \<Rightarrow> Inr (True, outputs, es)))))"

text \<open>
  The loop over the rows; \<^verbatim>\<open>return None\<close> inside it makes the whole function
  return \<^verbatim>\<open>None\<close>.
\<close>

fun rows_loop ::
  "'a closure \<Rightarrow> 'a list \<Rightarrow> 'a list \<Rightarrow> nat list \<Rightarrow> 'a Edge list \<Rightarrow> error + 'a Edge list option" where
  "rows_loop star gs tgt [] metapaths = Inr (Some metapaths)"
| "rows_loop star gs tgt (i # rest) metapaths =
    (case for_loop tgt (target_body star gs i) (False, [], []) of
       Inl e \<Rightarrow> Inl e
     | Inr (metapath_exist, cumulative_output, cumulative_edges) \<Rightarrow>
        if \<not> metapath_exist then Inr None
        else rows_loop star gs tgt rest
               (if (\<forall>elt \<in> set tgt. Inl elt \<in> set cumulative_output)
                then fold add_unique cumulative_edges metapaths
                else metapaths))"

text \<open>\<^verbatim>\<open>itertools.combinations\<close>, and all the non-empty ones by size.\<close>

fun combinations :: "'x list \<Rightarrow> nat \<Rightarrow> 'x list list" where
  "combinations xs 0 = [[]]"
| "combinations [] (Suc r) = []"
| "combinations (x # xs) (Suc r) = map ((#) x) (combinations xs r) @ combinations xs (Suc r)"

definition all_subsets :: "'x list \<Rightarrow> 'x list list" where
  "all_subsets xs = concat (map (combinations xs) [1 ..< length xs + 1])"

text \<open>
  \<^verbatim>\<open>get_edges_from_triple_list\<close> on an element of a cell, and
  \<^verbatim>\<open>is_edge_in_list\<close> on what it returns (one edge or a list of edges).
\<close>

fun get_edges_from_triple_list :: "'a Nested \<Rightarrow> 'a EdgeGroup"
  and edges_from_elements :: "'a Nested list \<Rightarrow> 'a Edge list \<Rightarrow> 'a Edge list" where
  "get_edges_from_triple_list (Leaf t) = Triple.edges t"
| "get_edges_from_triple_list (Nest elts) = Many (edges_from_elements elts [])"
| "edges_from_elements [] result = result"
| "edges_from_elements (element # rest) result =
    edges_from_elements rest
      (case get_edges_from_triple_list element of
         Many temp \<Rightarrow> fold add_unique temp result
       | Single temp \<Rightarrow> add_unique temp result)"

definition is_edge_in_edges :: "'a Edge \<Rightarrow> 'a EdgeGroup \<Rightarrow> bool" where
  "is_edge_in_edges edge nested_edges =
    (case nested_edges of
       Single e \<Rightarrow> are_edges_equal edge e
     | Many es \<Rightarrow> is_edge_in_list edge es)"

text \<open>
  \<^verbatim>\<open>is_metapath\<close> computes the closure anew. \<^verbatim>\<open>all_inputs\<close> and \<^verbatim>\<open>all_outputs\<close> are
  lists without duplicates that the code only reads as sets.
\<close>

definition elements_of_cell :: "'a Nested \<Rightarrow> error + 'a Nested list" where
  "elements_of_cell cell =
    (case cell of
       Leaf t \<Rightarrow> Inl (TypeError ''Triple object is not iterable'')
     | Nest elts \<Rightarrow> Inr elts)"

definition edge_body ::
  "'a Nested list \<Rightarrow> 'a Edge \<Rightarrow> 'a Edge list \<times> 'a set \<times> 'a set \<Rightarrow> 'a Edge list \<times> 'a set \<times> 'a set" where
  "edge_body elts edge s =
    (case s of (validated_edges, all_inputs, all_outputs) \<Rightarrow>
      (fold (\<lambda>triple validated.
               if is_edge_in_edges edge (get_edges_from_triple_list triple) \<and> edge \<notin> set validated
               then validated @ [edge] else validated)
            elts validated_edges,
       all_inputs \<union> invertex edge,
       all_outputs \<union> outvertex edge))"

definition cell_body ::
  "'a closure \<Rightarrow> 'a Edge list \<Rightarrow> nat \<Rightarrow> nat \<Rightarrow> 'a Edge list \<times> 'a set \<times> 'a set \<Rightarrow>
   error + ('a Edge list \<times> 'a set \<times> 'a set)" where
  "cell_body star es i j s =
    (case cell_at star i j of
       Inl e \<Rightarrow> Inl e
     | Inr None \<Rightarrow> Inr s
     | Inr (Some cell) \<Rightarrow>
        (case es of
           [] \<Rightarrow> Inr s
         | _ \<Rightarrow>
            (case elements_of_cell cell of
               Inl e \<Rightarrow> Inl e
             | Inr elts \<Rightarrow> Inr (fold (edge_body elts) es s))))"

definition is_metapath :: "'a Metagraph \<Rightarrow> 'a Metapath \<Rightarrow> nat \<Rightarrow> error + (bool \<times> nat)" where
  "is_metapath mg metapath_candidate oid =
    (case get_closure mg oid of
       Inl e \<Rightarrow> Inl e
     | Inr (star, oid') \<Rightarrow>
        (case applicable_indices (Metagraph.generating_set mg) (source metapath_candidate) of
           Inl e \<Rightarrow> Inl e
         | Inr all_applicable_input_rows \<Rightarrow>
            (case applicable_indices (Metagraph.generating_set mg) (target metapath_candidate) of
               Inl e \<Rightarrow> Inl e
             | Inr all_applicable_output_cols \<Rightarrow>
                (case for_loop all_applicable_input_rows
                        (\<lambda>i. for_loop all_applicable_output_cols
                                (cell_body star (edge_list metapath_candidate) i))
                        ([], {}, {}) of
                   Inl e \<Rightarrow> Inl e
                 | Inr (validated_edges, all_inputs, all_outputs) \<Rightarrow>
                    Inr (if \<exists>edge \<in> set (edge_list metapath_candidate). edge \<notin> set validated_edges
                         then False
                         else all_inputs - all_outputs \<subseteq> set (source metapath_candidate) \<and>
                              set (target metapath_candidate) \<subseteq> all_outputs,
                         oid')))))"

fun path_body ::
  "'a Metagraph \<Rightarrow> 'a list \<Rightarrow> 'a list \<Rightarrow> 'a Edge list \<Rightarrow> 'a Metapath list \<times> nat \<Rightarrow>
   error + ('a Metapath list \<times> nat)" where
  "path_body mg src tgt path (valid_metapaths, oid) =
    (case Metapath_init (Some src) (Some tgt) path of
       Inl e \<Rightarrow> Inl e
     | Inr mp \<Rightarrow>
        (case is_metapath mg mp oid of
           Inl e \<Rightarrow> Inl e
         | Inr (ok, oid') \<Rightarrow> Inr (if ok then valid_metapaths @ [mp] else valid_metapaths, oid')))"

text \<open>
  \<^verbatim>\<open>get_all_metapaths_from\<close> returns the metapaths, or \<^verbatim>\<open>None\<close>, together with the
  metagraph, whose cache it fills when it is empty, and the next free identity.
\<close>

definition get_all_metapaths_from ::
  "'a Metagraph \<Rightarrow> 'a list option \<Rightarrow> 'a list option \<Rightarrow> nat \<Rightarrow>
   error + ('a Metapath list option \<times> 'a Metagraph \<times> nat)" where
  "get_all_metapaths_from mg src tgt oid =
    (if src = None \<or> src = Some [] then raise_MetagraphException ''source'' ''value_null''
     else if tgt = None \<or> tgt = Some [] then raise_MetagraphException ''target'' ''value_null''
     else if \<not> set (the src) \<subseteq> set (Metagraph.generating_set mg)
     then raise_MetagraphException ''source'' ''not_a_subset''
     else if \<not> set (the tgt) \<subseteq> set (Metagraph.generating_set mg)
     then raise_MetagraphException ''target'' ''not_a_subset''
     else
      (case (case a_star mg of
               None \<Rightarrow> get_closure mg oid
             | Some cached \<Rightarrow> Inr (cached, oid)) of
         Inl e \<Rightarrow> Inl e
       | Inr (star, oid1) \<Rightarrow>
          (case applicable_indices (Metagraph.generating_set mg) (the src) of
             Inl e \<Rightarrow> Inl e
           | Inr all_applicable_input_rows \<Rightarrow>
              (case rows_loop star (Metagraph.generating_set mg) (the tgt)
                      all_applicable_input_rows [] of
                 Inl e \<Rightarrow> Inl e
               | Inr None \<Rightarrow> Inr (None, mg\<lparr>a_star := Some star\<rparr>, oid1)
               | Inr (Some metapaths) \<Rightarrow>
                  (case for_loop (all_subsets metapaths)
                          (path_body (mg\<lparr>a_star := Some star\<rparr>) (the src) (the tgt))
                          ([], oid1) of
                     Inl e \<Rightarrow> Inl e
                   | Inr (valid_metapaths, oid2) \<Rightarrow>
                      Inr (Some valid_metapaths, mg\<lparr>a_star := Some star\<rparr>, oid2))))))"

section \<open>Cutsets and bridges\<close>

text \<open>
  \<^verbatim>\<open>is_cutset\<close> drops from the edges of the metagraph those that have the invertex
  and the outvertex of an edge of the list, builds a new metagraph from what is
  left and asks it for the metapaths.
\<close>

definition is_cutset ::
  "'a Metagraph \<Rightarrow> 'a Edge list option \<Rightarrow> 'a list option \<Rightarrow> 'a list option \<Rightarrow> nat \<Rightarrow>
   error + (bool \<times> nat)" where
  "is_cutset mg el src tgt oid =
    (if el = None then raise_MetagraphException ''edges'' ''value_null''
     else if src = None then raise_MetagraphException ''source'' ''value_null''
     else if tgt = None then raise_MetagraphException ''target'' ''value_null''
     else
      (let modified_edge_list =
             filter (\<lambda>edge1. \<not> (\<exists>edge2 \<in> set (the el).
                        invertex edge1 = invertex edge2 \<and> outvertex edge1 = outvertex edge2))
                    (Metagraph.edges mg)
       in case Metagraph_init (Metagraph.generating_set mg) of
            Inl e \<Rightarrow> Inl e
          | Inr mg0 \<Rightarrow>
             (case add_edges_from mg0 (Some modified_edge_list) of
                Inl e \<Rightarrow> Inl e
              | Inr mg1 \<Rightarrow>
                 (case get_all_metapaths_from mg1 src tgt oid of
                    Inl e \<Rightarrow> Inl e
                  | Inr (metapaths, mg2, oid') \<Rightarrow>
                     Inr (\<not> (metapaths \<noteq> None \<and> length (the metapaths) > 0), oid')))))"

text \<open>
  \<^verbatim>\<open>is_bridge\<close> makes the three \<^verbatim>\<open>None\<close> tests itself, then tests
  \<^verbatim>\<open>isinstance(edge_list, list)\<close>, which holds of every list of edges and has no
  branch here, and returns what \<^verbatim>\<open>is_cutset\<close> returns.
\<close>

definition is_bridge ::
  "'a Metagraph \<Rightarrow> 'a Edge list option \<Rightarrow> 'a list option \<Rightarrow> 'a list option \<Rightarrow> nat \<Rightarrow>
   error + (bool \<times> nat)" where
  "is_bridge mg el src tgt oid =
    (if el = None then raise_MetagraphException ''edge_list'' ''value_null''
     else if src = None then raise_MetagraphException ''source'' ''value_null''
     else if tgt = None then raise_MetagraphException ''target'' ''value_null''
     else is_cutset mg el src tgt oid)"

section \<open>Sums and products of metagraphs\<close>




section \<open>Example runs\<close>

text \<open>The metagraph over \<open>{1, 2, 3}\<close> with the edges \<open>{1} \<rightarrow> {2}\<close> and \<open>{2} \<rightarrow> {3}\<close>.\<close>

definition path_metagraph :: "nat Metagraph" where
  "path_metagraph =
    \<lparr>Metagraph.nodes = [\<lparr>element_set = {1}\<rparr>, \<lparr>element_set = {2}\<rparr>, \<lparr>element_set = {3}\<rparr>],
     Metagraph.edges =
       [\<lparr>invertex = {1}, outvertex = {2}, attributes = None, label = None, eid = 0\<rparr>,
        \<lparr>invertex = {2}, outvertex = {3}, attributes = None, label = None, eid = 1\<rparr>],
     Metagraph.generating_set = [1, 2, 3], a_star = None\<rparr>"


text \<open>
  The metagraph over \<open>{1, 2}\<close> after \<^verbatim>\<open>add_edge\<close> of \<open>{1} \<rightarrow> {2}\<close> and a query for the
  metapaths from \<open>{1}\<close> to \<open>{2}\<close>: it holds the edge and, in its cache, the closure
  of that edge.
\<close>

definition cached_metagraph :: "nat Metagraph" where
  "cached_metagraph =
    \<lparr>Metagraph.nodes = [\<lparr>element_set = {1}\<rparr>, \<lparr>element_set = {2}\<rparr>],
     Metagraph.edges =
       [\<lparr>invertex = {1}, outvertex = {2}, attributes = None, label = None, eid = 0\<rparr>],
     Metagraph.generating_set = [1, 2],
     a_star =
       Some [[None,
              Some (Nest [Leaf \<lparr>coinputs = None, cooutputs = None,
                                edges = Single \<lparr>invertex = {1}, outvertex = {2},
                                                 attributes = None, label = None, eid = 0\<rparr>,
                                tid = 0\<rparr>])],
             [None, None]]\<rparr>"

section \<open>Example metagraphs\<close>

text \<open>The edges \<open>{1} \<rightarrow> {2, 3}\<close>, \<open>{2, 3} \<rightarrow> {4}\<close> and \<open>{4} \<rightarrow> {5}\<close>.\<close>

definition edge_1_23 :: "nat Edge" where
  "edge_1_23 = \<lparr>invertex = {1}, outvertex = {2, 3}, attributes = None, label = None, eid = 0\<rparr>"

definition edge_23_4 :: "nat Edge" where
  "edge_23_4 = \<lparr>invertex = {2, 3}, outvertex = {4}, attributes = None, label = None, eid = 1\<rparr>"

definition edge_4_5 :: "nat Edge" where
  "edge_4_5 = \<lparr>invertex = {4}, outvertex = {5}, attributes = None, label = None, eid = 2\<rparr>"

text \<open>
  The metagraph over \<open>{1}\<close> with the edge \<open>{1} \<rightarrow> {1}\<close>, as the constructor and
  \<^verbatim>\<open>add_edge\<close> build it.
\<close>

definition loop_metagraph :: "nat Metagraph" where
  "loop_metagraph =
    \<lparr>Metagraph.nodes = [\<lparr>element_set = {1}\<rparr>],
     Metagraph.edges =
       [\<lparr>invertex = {1}, outvertex = {1}, attributes = None, label = None, eid = 0\<rparr>],
     Metagraph.generating_set = [1], a_star = None\<rparr>"

section \<open>Construction of a conditional metagraph\<close>

lemma resources_value_null:
  "map_of resources ''value_null'' = Some ''value cannot be null or empty''"
  by (simp add: resources_def)

lemma resources_partition_invalid: "map_of resources ''partition_invalid'' = None"
  by (simp add: resources_def)

text \<open>
  C9. Constructing a conditional metagraph from two sets that share an element:
  the message key \<^verbatim>\<open>partition_invalid\<close> is not in the table, so the lookup raises
  \<^verbatim>\<open>KeyError\<close> and no \<^verbatim>\<open>MetagraphException\<close> is raised. Evaluated at the sets
  \<open>{1}\<close> and \<open>{1}\<close>.
\<close>

theorem ConditionalMetagraph_init_overlap_KeyError:
  "ConditionalMetagraph_init {Num 1} {Num 1} = Inl (KeyError ''partition_invalid'')"
  by (simp add: ConditionalMetagraph_init_def raise_MetagraphException_def
      resources_partition_invalid)

section \<open>Contexts\<close>

text \<open>
  C10. \<^verbatim>\<open>get_context\<close> raises a \<^verbatim>\<open>MetagraphException\<close> with the message of
  \<^verbatim>\<open>value_null\<close> whenever the true propositions or the false propositions are
  \<^verbatim>\<open>None\<close> or empty; the exception names the first of the two arguments that is.
\<close>

theorem get_context_null_raises:
  "true_propositions = None \<or> true_propositions = Some [] \<or>
   false_propositions = None \<or> false_propositions = Some [] \<Longrightarrow>
   get_context cmg true_propositions false_propositions =
     Inl (MetagraphException
           (if true_propositions = None \<or> true_propositions = Some []
            then ''true_propositions'' else ''false_propositions'')
           ''value cannot be null or empty'')"
  by (auto simp add: get_context_def raise_MetagraphException_def resources_value_null)

theorem get_context_null_raises_witness:
  "(Some [Str ''p1''] = None \<or> Some [Str ''p1''] = Some [] \<or>
    Some ([] :: element list) = None \<or> Some ([] :: element list) = Some []) \<and>
   get_context
     \<lparr>nodes = [], edges = [], variables_set = {Num 1}, propositions_set = {Str ''p1''},
      generating_set = {Num 1, Str ''p1''}\<rparr>
     (Some [Str ''p1'']) (Some []) =
   Inl (MetagraphException ''false_propositions'' ''value cannot be null or empty'')"
  using get_context_null_raises [of "Some [Str ''p1'']" "Some []"
      "\<lparr>nodes = [], edges = [], variables_set = {Num 1}, propositions_set = {Str ''p1''},
        generating_set = {Num 1, Str ''p1''}\<rparr>"]
  by simp

text \<open>
  C5. A conditional metagraph built by the constructor and \<^verbatim>\<open>add_edges_from\<close>
  with the single edge \<open>{1, p1} \<rightarrow> {2}\<close>; the context for \<open>p1\<close> true and \<open>p2\<close>
  false holds that edge with \<open>p1\<close> still in its invertex.
\<close>

theorem get_context_keeps_true_proposition:
  "(case ConditionalMetagraph_init {Num 1, Num 2} {Str ''p1'', Str ''p2''} of
      Inl e \<Rightarrow> Inl e
    | Inr cmg \<Rightarrow>
       (case cm_add_edges_from cmg
               (Some [\<lparr>invertex = {Num 1, Str ''p1''}, outvertex = {Num 2},
                       attributes = Some [Str ''p1''], label = None, eid = 0\<rparr>]) of
          Inl e \<Rightarrow> Inl e
        | Inr cmg' \<Rightarrow>
           (case get_context cmg' (Some [Str ''p1'']) (Some [Str ''p2'']) of
              Inl e \<Rightarrow> Inl e
            | Inr context \<Rightarrow> Inr (map invertex (edges context), map outvertex (edges context)))))
   = Inr ([{Num 1, Str ''p1''}], [{Num 2}])"
  by (simp add: ConditionalMetagraph_init_def cm_add_edges_from_def get_context_def
      add_edge_nodes_def Node_init_def append_node_def is_node_in_list_def
      are_nodes_equal_def)

section \<open>Non-redundancy\<close>

lemma redundancy_cmg_built:
  "(case ConditionalMetagraph_init {Num 1, Num 2, Num 3} {Str ''p'', Str ''q''} of
      Inl e \<Rightarrow> Inl e
    | Inr cmg \<Rightarrow> cm_add_edges_from cmg (Some redundancy_edges)) = Inr redundancy_cmg"
  by (simp add: ConditionalMetagraph_init_def cm_add_edges_from_def redundancy_edges_def
      redundancy_cmg_def add_edge_nodes_def Node_init_def append_node_def
      is_node_in_list_def are_nodes_equal_def doubleton_eq_iff)

text \<open>
  C8. With the interpretations \<open>[(q, true), (p, false)]\<close> and
  \<open>[(p, true), (q, false)]\<close>, in this order, \<^verbatim>\<open>is_non_redundant\<close> returns true,
  although under the second interpretation alone it returns false: there the
  context holds two edges with the variable \<open>3\<close> in their outvertex.
\<close>

theorem is_non_redundant_reads_first_interpretation_only:
  "is_non_redundant redundancy_cmg (Some [''p | q''])
     (Some [[(Str ''q'', True), (Str ''p'', False)],
            [(Str ''p'', True), (Str ''q'', False)]]) = Inr True \<and>
   is_non_redundant redundancy_cmg (Some [''p | q''])
     (Some [[(Str ''p'', True), (Str ''q'', False)]]) = Inr False"
  by (simp add: is_non_redundant_def redundancy_cmg_def redundancy_edges_def
      expression_items_def replace_char_def raise_MetagraphException_def
      get_context_def ConditionalMetagraph_init_def cm_add_edges_from_def
      add_edge_nodes_def Node_init_def append_node_def is_node_in_list_def
      are_nodes_equal_def doubleton_eq_iff Let_def)

section \<open>The product of two triples\<close>

lemma operand_simps: "operand None = {}" "operand (Some A) = A"
  by (simp_all add: operand_def)

text \<open>
  C1, as the code has it. The product is a triple whose coinputs are absent when
  both operands have none and otherwise the set \<open>(CI1 \<union> CI2) - ({x_i} \<union> CO1)\<close>,
  empty or not; whose cooutputs are the set \<open>(CO1 \<union> CO2 \<union> {x_k}) - {x_j}\<close>; and
  whose edges, when the second operand carries a single edge, are the edges of
  the first operand followed by that edge unless the same object is among them.
\<close>

theorem multiply_triples_product:
  "\<exists>r. multiply_triples (Some r1) (Some r2) x_i x_j x_k oid = Some r \<and>
     coinputs r =
       (if coinputs r1 = None \<and> coinputs r2 = None then None
        else Some ((operand (coinputs r1) \<union> operand (coinputs r2)) -
                   ({x_i} \<union> operand (cooutputs r1)))) \<and>
     cooutputs r = Some (spec_beta r1 r2 x_j x_k) \<and>
     (\<forall>e2. Triple.edges r2 = Single e2 \<longrightarrow>
        Triple.edges r =
          Many (if e2 \<in> set (edge_list_of (Triple.edges r1))
                then edge_list_of (Triple.edges r1)
                else edge_list_of (Triple.edges r1) @ [e2]))"
  by (cases "coinputs r1"; cases "coinputs r2"; cases "cooutputs r1"; cases "cooutputs r2")
     (auto simp add: multiply_triples_def Let_def operand_def spec_beta_def edge_list_of_def
       split: EdgeGroup.splits)

theorem multiply_triples_product_witness:
  "multiply_triples
     (Some \<lparr>coinputs = None, cooutputs = Some {3}, edges = Single edge_1_23, tid = 0\<rparr>)
     (Some \<lparr>coinputs = Some {3}, cooutputs = None, edges = Single edge_23_4, tid = 1\<rparr>)
     1 4 2 2 =
   Some \<lparr>coinputs = Some {}, cooutputs = Some {2, 3}, edges = Many [edge_1_23, edge_23_4], tid = 2\<rparr>"
  using multiply_triples_product
    [of "\<lparr>coinputs = None, cooutputs = Some {3}, edges = Single edge_1_23, tid = 0\<rparr>"
        "\<lparr>coinputs = Some {3}, cooutputs = None, edges = Single edge_23_4, tid = 1\<rparr>"
        1 4 2 2]
  by (auto simp add: multiply_triples_def operand_def spec_beta_def edge_list_of_def edge_1_23_def edge_23_4_def Let_def)

text \<open>
  The product of the triples of \<open>{1} \<rightarrow> {2, 3}\<close> and \<open>{2, 3} \<rightarrow> {4}\<close> across the
  element \<open>2\<close> has the empty set as coinputs, where the specification has them
  absent; and a second operand that carries a list of edges replaces the edges of
  the first.
\<close>

theorem multiply_triples_counterexample:
  "coinputs (the (multiply_triples
     (Some \<lparr>coinputs = None, cooutputs = Some {3}, edges = Single edge_1_23, tid = 0\<rparr>)
     (Some \<lparr>coinputs = Some {3}, cooutputs = None, edges = Single edge_23_4, tid = 1\<rparr>)
     1 4 2 2)) \<noteq>
   spec_alpha \<lparr>coinputs = None, cooutputs = Some {3}, edges = Single edge_1_23, tid = 0\<rparr>
     \<lparr>coinputs = Some {3}, cooutputs = None, edges = Single edge_23_4, tid = 1\<rparr> 1 \<and>
   Triple.edges (the (multiply_triples
     (Some \<lparr>coinputs = None, cooutputs = Some {3}, edges = Single edge_1_23, tid = 0\<rparr>)
     (Some \<lparr>coinputs = None, cooutputs = Some {4}, edges = Many [edge_23_4, edge_4_5], tid = 1\<rparr>)
     1 5 2 2)) \<noteq>
   Many (spec_gamma \<lparr>coinputs = None, cooutputs = Some {3}, edges = Single edge_1_23, tid = 0\<rparr>
     \<lparr>coinputs = None, cooutputs = Some {4}, edges = Many [edge_23_4, edge_4_5], tid = 1\<rparr>)"
  by (simp add: multiply_triples_def spec_alpha_def spec_gamma_def operand_def edge_list_of_def
      is_edge_in_list_def are_edges_equal_def edge_1_23_def edge_23_4_def edge_4_5_def Let_def)

section \<open>The incidence matrix\<close>

text \<open>
  C3, as the code has it. The incidence matrix has a row for each element of the
  generating set and a column for each edge; a cell is \<open>-1\<close> when the element is
  in the invertex of the edge, otherwise \<open>+1\<close> when it is in the outvertex, otherwise
  absent. An element in both gets \<open>-1\<close>.
\<close>

theorem incidence_matrix_cells:
  "length (incidence_matrix mg) = length (Metagraph.generating_set mg) \<and>
   (\<forall>i < length (Metagraph.generating_set mg).
      length (incidence_matrix mg ! i) = length (Metagraph.edges mg) \<and>
      (\<forall>j < length (Metagraph.edges mg).
         incidence_matrix mg ! i ! j =
           (if Metagraph.generating_set mg ! i \<in> invertex (Metagraph.edges mg ! j) then Some (- 1)
            else if Metagraph.generating_set mg ! i \<in> outvertex (Metagraph.edges mg ! j) then Some 1
            else None)))"
  by (simp add: incidence_matrix_def Let_def)

lemma loop_metagraph_built: "(case Metagraph_init [1::nat] of Inl e \<Rightarrow> Inl e | Inr mg \<Rightarrow> 
   add_edge mg \<lparr>invertex = {1}, outvertex = {1}, attributes = None, label = None, eid = 0\<rparr>) = Inr loop_metagraph"
  by (simp add: Metagraph_init_def add_edge_def add_edge_nodes_def Node_init_def append_node_def
     is_node_in_list_def are_nodes_equal_def is_edge_in_list_def loop_metagraph_def)

theorem incidence_matrix_cells_witness:
  "incidence_matrix loop_metagraph = [[Some (- 1)]]"
  using incidence_matrix_cells [of loop_metagraph]
  by (simp add: loop_metagraph_def incidence_matrix_def)

text \<open>The element \<open>1\<close> is in both vertices of the edge and its cell is not \<open>+1\<close>.\<close>

theorem incidence_matrix_counterexample:
  "Metagraph.generating_set loop_metagraph ! 0 \<in> invertex (Metagraph.edges loop_metagraph ! 0) \<and>
   Metagraph.generating_set loop_metagraph ! 0 \<in> outvertex (Metagraph.edges loop_metagraph ! 0) \<and>
   incidence_matrix loop_metagraph ! 0 ! 0 \<noteq> Some 1"
  by (simp add: loop_metagraph_def incidence_matrix_def)

section \<open>Edges and the generating set\<close>

text \<open>
  C6. \<^verbatim>\<open>add_edge\<close> and \<^verbatim>\<open>add_edges_from\<close> on the metagraph over \<open>{1, 2}\<close> accept the
  edge \<open>{1} \<rightarrow> {3}\<close>: the metagraph then holds an edge that draws on \<open>3\<close>, which
  is not in the generating set.
\<close>

theorem add_edge_outside_generating_set:
  "(case Metagraph_init [1::nat, 2] of
      Inl e \<Rightarrow> Inl e
    | Inr mg \<Rightarrow>
        map_sum id Metagraph.edges
          (add_edge mg \<lparr>invertex = {1}, outvertex = {3}, attributes = None, label = None, eid = 0\<rparr>))
   = Inr [\<lparr>invertex = {1}, outvertex = {3}, attributes = None, label = None, eid = 0\<rparr>] \<and>
   (case Metagraph_init [1::nat, 2] of
      Inl e \<Rightarrow> Inl e
    | Inr mg \<Rightarrow>
        map_sum id Metagraph.edges
          (add_edges_from mg
            (Some [\<lparr>invertex = {1}, outvertex = {3}, attributes = None, label = None, eid = 0\<rparr>])))
   = Inr [\<lparr>invertex = {1}, outvertex = {3}, attributes = None, label = None, eid = 0\<rparr>] \<and>
   \<not> ({1} \<union> {3} \<subseteq> set [1::nat, 2])"
  by (simp add: Metagraph_init_def add_edge_def add_edges_from_def add_edge_nodes_def Node_init_def append_node_def
     is_node_in_list_def are_nodes_equal_def is_edge_in_list_def)

section \<open>Loops that do not raise\<close>





section \<open>Products do not raise\<close>













section \<open>What numpy's matrix returns\<close>




section \<open>The iteration of the closure\<close>








section \<open>Bridges\<close>

text \<open>
  C4. On a list of edges \<^verbatim>\<open>is_bridge\<close> returns what \<^verbatim>\<open>is_cutset\<close> returns, the
  value or the exception, for every source and target.
\<close>

theorem is_bridge_is_cutset:
  "is_bridge mg (Some el) src tgt oid = is_cutset mg (Some el) src tgt oid"
  by (simp add: is_bridge_def is_cutset_def)

text \<open>
  On the metagraph \<open>{1} \<rightarrow> {2}\<close>, \<open>{2} \<rightarrow> {3}\<close>, from \<open>{1}\<close> to \<open>{3}\<close>: an edge \<open>{2} \<rightarrow> {3}\<close>
  is a cutset, the empty list of edges is not, and without a source \<^verbatim>\<open>is_cutset\<close>
  raises.
\<close>

lemma path_metagraph_cutset:
  "is_cutset path_metagraph
     (Some [\<lparr>invertex = {2}, outvertex = {3}, attributes = None, label = None, eid = 7\<rparr>])
     (Some [1]) (Some [3]) 0 = Inr (True, 1) \<and>
   is_cutset path_metagraph (Some []) (Some [1]) (Some [3]) 0 = Inr (False, 12) \<and>
   is_cutset path_metagraph (Some []) None (Some [3]) 0 =
     Inl (MetagraphException ''source'' ''value cannot be null or empty'')"
  by code_simp

theorem is_bridge_is_cutset_witness:
  "is_bridge path_metagraph
     (Some [\<lparr>invertex = {2}, outvertex = {3}, attributes = None, label = None, eid = 7\<rparr>])
     (Some [1]) (Some [3]) 0 = Inr (True, 1) \<and>
   is_bridge path_metagraph (Some []) (Some [1]) (Some [3]) 0 = Inr (False, 12) \<and>
   is_bridge path_metagraph (Some []) None (Some [3]) 0 =
     Inl (MetagraphException ''source'' ''value cannot be null or empty'')"
  using is_bridge_is_cutset [of path_metagraph
      "[\<lparr>invertex = {2}, outvertex = {3}, attributes = None, label = None, eid = 7\<rparr>]"
      "Some [1]" "Some [3]" 0]
    is_bridge_is_cutset [of path_metagraph "[]" "Some [1]" "Some [3]" 0]
    is_bridge_is_cutset [of path_metagraph "[]" None "Some [3]" 0]
    path_metagraph_cutset
  by simp

section \<open>The closure cache\<close>


lemma raise_is_Inl [simp]: "raise_MetagraphException arg key \<noteq> Inr x"
  by (simp add: raise_MetagraphException_def split: option.splits)








lemma cached_metagraph_built:
  "(case Metagraph_init [1, 2] of
      Inl e \<Rightarrow> Inl e
    | Inr mg0 \<Rightarrow>
       (case add_edge mg0
               \<lparr>invertex = {1}, outvertex = {2}, attributes = None, label = None, eid = 0\<rparr> of
          Inl e \<Rightarrow> Inl e
        | Inr mg1 \<Rightarrow>
           map_sum id (\<lambda>r. (map_option (map edge_list) (fst r), snd r))
             (get_all_metapaths_from mg1 (Some [1]) (Some [2]) 0))) =
   Inr (Some [Metagraph.edges cached_metagraph], cached_metagraph, 2)"
  by code_simp



end
